theory Spec2Isabelle
  imports Complex_Main
begin

section \<open>Values decoded from a submission\<close>

text \<open>
  \<^verbatim>\<open>handle_request\<close> decodes the bytes of a connection with \<^verbatim>\<open>json.loads\<close> and
  hands the result to \<^verbatim>\<open>add_task\<close>. The decoded value is any JSON value: \<^verbatim>\<open>None\<close>,
  a bool, an int, a float, a str, a list or a dict. A dict is kept as the list of its
  items; a key is looked up with \<open>map_of\<close>. Floats are taken as exact rationals: the
  rounding of the double format, and the values NaN and Infinity that
  \<^verbatim>\<open>json.loads\<close> also accepts, are outside this model.
\<close>

datatype json =
    JNull
  | JBool bool
  | JInt int
  | JFloat rat
  | JStr string
  | JArr "json list"
  | JObj "(string \<times> json) list"

text \<open>
  The exceptions the modelled code can raise. \<^verbatim>\<open>ValidateError\<close> is imported from the
  module \<^verbatim>\<open>errors\<close> and carries its message. \<open>NetworkError\<close> stands for whatever the
  socket and \<^verbatim>\<open>requests\<close> libraries raise from a network call.
\<close>

datatype error =
    ValidateError string
  | AttributeError
  | TypeError
  | OverflowError
  | IndexError
  | ValueError
  | NetworkError

text \<open>Python's truth value of a decoded value, as \<^verbatim>\<open>not x\<close> and \<^verbatim>\<open>x and y\<close> use it.\<close>

fun truthy :: "json \<Rightarrow> bool" where
  "truthy JNull = False"
| "truthy (JBool b) = b"
| "truthy (JInt i) = (i \<noteq> 0)"
| "truthy (JFloat r) = (r \<noteq> 0)"
| "truthy (JStr s) = (s \<noteq> [])"
| "truthy (JArr xs) = (xs \<noteq> [])"
| "truthy (JObj kv) = (kv \<noteq> [])"

text \<open>\<^verbatim>\<open>isinstance(x, dict)\<close>, giving the items when it holds.\<close>

fun as_dict :: "json \<Rightarrow> (string \<times> json) list option" where
  "as_dict (JObj kv) = Some kv"
| "as_dict _ = None"

text \<open>\<^verbatim>\<open>d.get(k, default)\<close> on a dict; \<^verbatim>\<open>d.get(k)\<close> is \<open>dict_get kv k JNull\<close>.\<close>

definition dict_get :: "(string \<times> json) list \<Rightarrow> string \<Rightarrow> json \<Rightarrow> json" where
  "dict_get kv k d = (case map_of kv k of None \<Rightarrow> d | Some v \<Rightarrow> v)"

section \<open>Task\<close>

record task =
  title :: json
  address_type :: json
  address_link :: json
  settings_time :: rat
  settings_data :: json

text \<open>
  \<^verbatim>\<open>settings.get('time') + time.time()\<close>, the right operand being a float. A bool is
  an int; an int is converted to a float first, which raises \<^verbatim>\<open>OverflowError\<close> when
  it does not fit the double format; every other operand type raises
  \<^verbatim>\<open>TypeError\<close>.
\<close>

definition float_max_int :: int where
  "float_max_int = 2 ^ 1024 - 2 ^ 970"

fun add_time :: "json \<Rightarrow> rat \<Rightarrow> error + rat" where
  "add_time (JBool b) now = Inr ((if b then 1 else 0) + now)"
| "add_time (JInt i) now =
     (if \<bar>i\<bar> < float_max_int then Inr (of_int i + now) else Inl OverflowError)"
| "add_time (JFloat r) now = Inr (r + now)"
| "add_time _ now = Inl TypeError"

text \<open>
  \<^verbatim>\<open>Task.__init__(self, data)\<close>, with \<open>now\<close> the value \<^verbatim>\<open>time.time()\<close> returns.
  \<^verbatim>\<open>data.get\<close> raises \<^verbatim>\<open>AttributeError\<close> when the decoded value is not a dict.
\<close>

definition Task_init :: "json \<Rightarrow> rat \<Rightarrow> error + task" where
  "Task_init data now =
     (case as_dict data of
        None \<Rightarrow> Inl AttributeError
      | Some kv \<Rightarrow>
          let title' = dict_get kv ''title'' JNull;
              address = dict_get kv ''address'' JNull;
              settings = dict_get kv ''settings'' JNull
          in (case (as_dict address, as_dict settings) of
                (Some a, Some s) \<Rightarrow>
                  if \<not> truthy title' then
                    Inl (ValidateError ''Missing key title or address or settings'')
                  else if \<not> (truthy (dict_get a ''type'' JNull)
                              \<and> truthy (dict_get a ''link'' JNull)) then
                    Inl (ValidateError ''Missing key type or link in address'')
                  else if \<not> truthy (dict_get s ''time'' JNull) then
                    Inl (ValidateError ''Missing key time in settings'')
                  else (case add_time (dict_get s ''time'' JNull) now of
                          Inl e \<Rightarrow> Inl e
                        | Inr deadline \<Rightarrow>
                            Inr \<lparr> title = title',
                                  address_type = dict_get a ''type'' JNull,
                                  address_link = dict_get a ''link'' JNull,
                                  settings_time = deadline,
                                  settings_data = dict_get s ''data'' (JObj []) \<rparr>)
              | _ \<Rightarrow> Inl (ValidateError ''Missing key title or address or settings'')))"

text \<open>The number a decoded value stands for in an addition, when it is one.\<close>

fun number_of :: "json \<Rightarrow> rat option" where
  "number_of (JBool b) = Some (if b then 1 else 0)"
| "number_of (JInt i) = Some (of_int i)"
| "number_of (JFloat r) = Some r"
| "number_of _ = None"

text \<open>The submission of the spec's first scenario.\<close>

definition ping :: json where
  "ping = JObj [(''title'', JStr ''ping''),
                (''address'', JObj [(''type'', JStr ''http''),
                                    (''link'', JStr ''http://example.test/x'')]),
                (''settings'', JObj [(''time'', JInt 0)])]"

section \<open>TaskManager\<close>

text \<open>
  Objects are named by the order of their allocation. A \<^verbatim>\<open>Task\<close> object in the list
  is the pair of its identity and its fields: no code assigns a field after
  \<^verbatim>\<open>__init__\<close>, and \<^verbatim>\<open>Task\<close> defines no \<^verbatim>\<open>__eq__\<close>, so two of them are equal
  exactly when they are the same object.

  What the process sends is recorded in \<open>sent\<close>: one entry when a dispatch reaches its
  network call, with the clock value read for the task and whether the call returned
  (\<open>d_ok\<close>) or raised.
\<close>

datatype request =
    HttpGet json json json
  | HttpGetBare json
  | SocketSend string int json

record dispatch =
  d_task :: "nat \<times> task"
  d_request :: request
  d_time :: rat
  d_ok :: bool

text \<open>
  \<open>tasks\<close> is the list object bound to the class attribute \<^verbatim>\<open>__tasks\<close>; \<open>cls_attrs\<close>
  holds the class attributes assigned after the class body ran, newest first;
  \<open>next_ref\<close> is the identity the next allocated object gets. \<open>cursor\<close> is the index
  of the list iterator of the \<^verbatim>\<open>for\<close> loop in \<^verbatim>\<open>_manage\<close>, and \<open>crashed\<close> the
  exception that ended the thread running \<^verbatim>\<open>_manage\<close>, if one did.
\<close>

record broker =
  tasks :: "(nat \<times> task) list"
  cls_attrs :: "(string \<times> nat) list"
  next_ref :: nat
  cursor :: nat
  crashed :: "error option"
  sent :: "dispatch list"

definition user_agents :: "string list" where
  "user_agents =
   [''Mozilla/5.0 (Macintosh; Intel Mac OS X 10_15_7) AppleWebKit/537.36 (KHTML, like Gecko) Chrome/120.0.0.0 YaBrowser/24.1.0.0 Safari/537.36'',
    ''Mozilla/5.0 (X11; Linux x86_64) AppleWebKit/537.36 (KHTML, like Gecko) Chrome/120.0.0.0 YaBrowser/24.1.0.0 Safari/537.36'',
    ''Mozilla/5.0 (X11; Linux x86_64; rv:121.0) Gecko/20100101 Firefox/121.0'',
    ''Mozilla/5.0 (Windows NT 10.0; Win64; x64) AppleWebKit/537.36 (KHTML, like Gecko) Chrome/109.0.0.0 Safari/537.36'',
    ''Mozilla/5.0 (Macintosh; Intel Mac OS X 10_15_7) AppleWebKit/537.36 (KHTML, like Gecko) Chrome/109.0.0.0 Safari/537.36'',
    ''Mozilla/5.0 (Windows NT 10.0; Win64; x64) AppleWebKit/537.36 (KHTML, like Gecko) Chrome/108.0.0.0 Safari/537.36'',
    ''Mozilla/5.0 (Macintosh; Intel Mac OS X 10_15_7) AppleWebKit/537.36 (KHTML, like Gecko) Chrome/108.0.0.0 Safari/537.36'',
    ''Mozilla/5.0 (X11; Linux x86_64) AppleWebKit/537.36 (KHTML, like Gecko) Chrome/108.0.0.0 Safari/537.36'',
    ''Mozilla/5.0 (Macintosh; Intel Mac OS X 10_15_7) AppleWebKit/605.1.15 (KHTML, like Gecko) Version/16.1 Safari/605.1.15'',
    ''Mozilla/5.0 (Macintosh; Intel Mac OS X 13_1) AppleWebKit/605.1.15 (KHTML, like Gecko) Version/16.1 Safari/605.1.15'']"

text \<open>
  The names the class body of \<^verbatim>\<open>TaskManager\<close> binds (a name with two leading
  underscores is stored mangled). The names inherited from \<^verbatim>\<open>object\<close> all begin and
  end with two underscores.
\<close>

definition class_body_names :: "string list" where
  "class_body_names =
   [''__module__'', ''__qualname__'', ''__doc__'', ''__annotations__'',
    ''_TaskManager__tasks'', ''user_agents'', ''append_task'', ''remove_task'',
    ''get_tasks'', ''manage'', ''_manage'', ''_TaskManager__send_socket'',
    ''_TaskManager__send_http'', ''_get_random_user_agent'', ''__new__'']"

definition hasattr_cls :: "broker \<Rightarrow> string \<Rightarrow> bool" where
  "hasattr_cls w name \<longleftrightarrow>
     name \<in> set class_body_names \<or> map_of (cls_attrs w) name \<noteq> None"

text \<open>
  \<^verbatim>\<open>TaskManager.__new__(cls)\<close>. The test reads the attribute \<^verbatim>\<open>instance\<close>; the
  assignment and the return, written \<^verbatim>\<open>cls.__instance\<close> inside the class, use the
  mangled name.
\<close>

definition TaskManager_new :: "broker \<Rightarrow> (error + nat) \<times> broker" where
  "TaskManager_new w =
     (let w1 = (if \<not> hasattr_cls w ''instance''
                then w\<lparr> cls_attrs := (''_TaskManager__instance'', next_ref w) # cls_attrs w,
                        next_ref := Suc (next_ref w) \<rparr>
                else w)
      in (case map_of (cls_attrs w1) ''_TaskManager__instance'' of
            None \<Rightarrow> Inl AttributeError
          | Some r \<Rightarrow> Inr r, w1))"

text \<open>
  The methods take \<open>self\<close>, the identity of the instance they are called on. No code
  assigns an attribute of an instance, so \<^verbatim>\<open>self.__tasks\<close> always finds the class
  attribute.
\<close>

definition append_task :: "nat \<Rightarrow> nat \<times> task \<Rightarrow> broker \<Rightarrow> broker" where
  "append_task self t w = w\<lparr> tasks := tasks w @ [t] \<rparr>"

text \<open>
  \<^verbatim>\<open>list.remove(x)\<close> deletes the first item that is \<open>x\<close> and raises
  \<^verbatim>\<open>ValueError\<close> when there is none.
\<close>

fun list_remove :: "nat \<Rightarrow> (nat \<times> 'a) list \<Rightarrow> (nat \<times> 'a) list option" where
  "list_remove i [] = None"
| "list_remove i (x # xs) =
     (if fst x = i then Some xs
      else (case list_remove i xs of None \<Rightarrow> None | Some ys \<Rightarrow> Some (x # ys)))"

definition remove_task :: "nat \<Rightarrow> nat \<times> task \<Rightarrow> broker \<Rightarrow> error + broker" where
  "remove_task self t w =
     (case list_remove (fst t) (tasks w) of
        None \<Rightarrow> Inl ValueError
      | Some ts \<Rightarrow> Inr (w\<lparr> tasks := ts \<rparr>))"

definition get_tasks :: "nat \<Rightarrow> broker \<Rightarrow> (nat \<times> task) list" where
  "get_tasks self w = tasks w"

text \<open>
  \<^verbatim>\<open>_get_random_user_agent\<close>; \<open>rnd\<close> stands for the draw of \<^verbatim>\<open>random.choice\<close>.
\<close>

definition get_random_user_agent :: "nat \<Rightarrow> json" where
  "get_random_user_agent rnd =
     JObj [(''User-Agent'', JStr (user_agents ! (rnd mod length user_agents)))]"

section \<open>Sending\<close>

text \<open>
  The module's one manager object, \<^verbatim>\<open>task_manager = TaskManager()\<close>: the first
  object allocated. The scheduler thread runs its \<^verbatim>\<open>_manage\<close>.
\<close>

definition task_manager :: nat where
  "task_manager = 0"


text \<open>\<^verbatim>\<open>s.split(':')\<close>: the pieces of \<open>s\<close> between the separators, at least one.\<close>

fun split_on :: "char \<Rightarrow> string \<Rightarrow> string list" where
  "split_on c [] = [[]]"
| "split_on c (x # xs) =
     (if x = c then [] # split_on c xs
      else (case split_on c xs of
              [] \<Rightarrow> [[x]]
            | p # ps \<Rightarrow> (x # p) # ps))"

text \<open>
  \<^verbatim>\<open>int(s)\<close> on a string, for ASCII text: white space around, an optional sign, then
  decimal digits, where one underscore may stand between two digits. \<open>None\<close> is
  \<^verbatim>\<open>ValueError\<close>.
\<close>

definition is_space :: "char \<Rightarrow> bool" where
  "is_space c \<longleftrightarrow>
     (let n = (of_char c :: nat) in (9 \<le> n \<and> n \<le> 13) \<or> (28 \<le> n \<and> n \<le> 32))"

definition is_digit :: "char \<Rightarrow> bool" where
  "is_digit c \<longleftrightarrow> (let n = (of_char c :: nat) in 48 \<le> n \<and> n \<le> 57)"

fun digits_value :: "nat \<Rightarrow> string \<Rightarrow> nat option" where
  "digits_value acc [] = Some acc"
| "digits_value acc (c # cs) =
     (if is_digit c then digits_value (10 * acc + (of_char c - 48)) cs
      else if c = CHR ''_'' \<and> cs \<noteq> [] \<and> is_digit (hd cs) then digits_value acc cs
      else None)"

definition unsigned_int :: "string \<Rightarrow> nat option" where
  "unsigned_int s =
     (case s of
        [] \<Rightarrow> None
      | c # cs \<Rightarrow> if is_digit c then digits_value 0 s else None)"

definition py_int :: "string \<Rightarrow> int option" where
  "py_int s =
     (let body = rev (dropWhile is_space (rev (dropWhile is_space s)))
      in (case body of
            [] \<Rightarrow> None
          | c # cs \<Rightarrow>
              if c = CHR ''-'' then map_option (\<lambda>n. - int n) (unsigned_int cs)
              else if c = CHR ''+'' then map_option int (unsigned_int cs)
              else map_option int (unsigned_int body)))"

text \<open>
  The two senders return the exception raised, if any, and the state they leave.
  \<open>ok\<close> says whether the network call of this dispatch returns: everything the
  network and the libraries do (no listener, a timeout, a name that does not resolve,
  a URL that \<^verbatim>\<open>requests\<close> refuses) is behind it.
\<close>

definition finish_send :: "nat \<times> task \<Rightarrow> request \<Rightarrow> rat \<Rightarrow> bool \<Rightarrow> broker
    \<Rightarrow> error option \<times> broker" where
  "finish_send t req now ok w =
     (let w1 = w\<lparr> sent := sent w @ [\<lparr> d_task = t, d_request = req,
                                        d_time = now, d_ok = ok \<rparr>] \<rparr>
      in if \<not> ok then (Some NetworkError, w1)
         else (case remove_task task_manager t w1 of
                 Inl e \<Rightarrow> (Some e, w1)
               | Inr w2 \<Rightarrow> (None, w2)))"

text \<open>
  \<^verbatim>\<open>__send_socket\<close>: \<^verbatim>\<open>split\<close> exists on a str only; the second piece is missing
  when the link has no colon; \<^verbatim>\<open>int\<close> raises \<^verbatim>\<open>ValueError\<close>; \<^verbatim>\<open>connect\<close> raises
  \<^verbatim>\<open>OverflowError\<close> for a port outside 0..65535 before it touches the network.
\<close>

definition send_socket :: "rat \<Rightarrow> bool \<Rightarrow> nat \<times> task \<Rightarrow> broker \<Rightarrow> error option \<times> broker" where
  "send_socket now ok t w =
     (case address_link (snd t) of
        JStr link \<Rightarrow>
          (case split_on CHR '':'' link of
             host # port # rest \<Rightarrow>
               (case py_int port of
                  None \<Rightarrow> (Some ValueError, w)
                | Some p \<Rightarrow>
                    if p < 0 \<or> 65535 < p then (Some OverflowError, w)
                    else finish_send t (SocketSend host p (settings_data (snd t))) now ok w)
           | _ \<Rightarrow> (Some IndexError, w))
      | _ \<Rightarrow> (Some AttributeError, w))"

text \<open>
  \<^verbatim>\<open>__send_http\<close>: with truthy data, \<^verbatim>\<open>data.get\<close> raises \<^verbatim>\<open>AttributeError\<close> unless
  the data is a dict.
\<close>

definition send_http :: "rat \<Rightarrow> bool \<Rightarrow> nat \<Rightarrow> nat \<times> task \<Rightarrow> broker \<Rightarrow> error option \<times> broker" where
  "send_http now ok rnd t w =
     (if truthy (settings_data (snd t)) then
        (case as_dict (settings_data (snd t)) of
           None \<Rightarrow> (Some AttributeError, w)
         | Some kv \<Rightarrow>
             let headers = dict_get kv ''headers'' (JObj []);
                 headers' = (if headers = JStr ''auto'' then get_random_user_agent rnd
                             else headers)
             in finish_send t (HttpGet (address_link (snd t)) (settings_data (snd t)) headers')
                  now ok w)
      else finish_send t (HttpGetBare (address_link (snd t))) now ok w)"

section \<open>The scheduler and the producers\<close>

text \<open>
  One turn of the \<^verbatim>\<open>for\<close> loop of \<^verbatim>\<open>_manage\<close>: the list iterator yields the item
  at its index and advances, or it is exhausted, and then the thread sleeps and the
  next \<^verbatim>\<open>for\<close> starts a new iterator. \<open>now\<close> is the value of \<^verbatim>\<open>time.time()\<close> read for
  the item. An exception leaves \<^verbatim>\<open>_manage\<close>, which has no handler, and ends its
  thread: from then on a turn does nothing.
\<close>

definition tick :: "rat \<Rightarrow> bool \<Rightarrow> nat \<Rightarrow> broker \<Rightarrow> broker" where
  "tick now ok rnd w =
     (if crashed w \<noteq> None then w
      else if cursor w < length (tasks w) then
        let t = tasks w ! cursor w;
            w1 = w\<lparr> cursor := Suc (cursor w) \<rparr>
        in if \<not> settings_time (snd t) \<le> now then w1
           else if address_type (snd t) = JStr ''http'' then
             (case send_http now ok rnd t w1 of (e, w2) \<Rightarrow> w2\<lparr> crashed := e \<rparr>)
           else if address_type (snd t) = JStr ''socket'' then
             (case send_socket now ok t w1 of (e, w2) \<Rightarrow> w2\<lparr> crashed := e \<rparr>)
           else w1
      else w\<lparr> cursor := 0 \<rparr>)"

text \<open>
  \<^verbatim>\<open>add_task(data)\<close> of the server, on the manager object \<open>self\<close>: the exception of
  the constructor is raised again by the decorator, and the list is not touched.
\<close>

definition add_task :: "nat \<Rightarrow> json \<Rightarrow> rat \<Rightarrow> broker \<Rightarrow> (error + unit) \<times> broker" where
  "add_task self data now w =
     (case Task_init data now of
        Inl e \<Rightarrow> (Inl e, w)
      | Inr t \<Rightarrow> (Inr (), append_task self (next_ref w, t) (w\<lparr> next_ref := Suc (next_ref w) \<rparr>)))"

text \<open>
  The process after the module is loaded: the class body has run, and
  \<^verbatim>\<open>task_manager = TaskManager()\<close> has allocated the first object.
\<close>

definition class_loaded :: broker where
  "class_loaded = \<lparr> tasks = [], cls_attrs = [], next_ref = 0, cursor = 0,
                    crashed = None, sent = [] \<rparr>"

definition boot :: broker where
  "boot = snd (TaskManager_new class_loaded)"

text \<open>
  The threads take turns: a connection handler submits a decoded value, or the
  scheduler thread makes one turn of its loop. A handler appends at the end of the
  list and a dispatch deletes the item it holds, so where inside a turn an append
  falls does not change the outcome, and a turn is taken as one step.
\<close>

datatype event =
    Submit json rat
  | Tick rat bool nat

fun step :: "broker \<Rightarrow> event \<Rightarrow> broker" where
  "step w (Submit data now) = snd (add_task task_manager data now w)"
| "step w (Tick now ok rnd) = tick now ok rnd w"

definition run :: "event list \<Rightarrow> broker \<Rightarrow> broker" where
  "run evs w = foldl step w evs"

section \<open>Notions used in the statements\<close>

text \<open>The entry a dispatch of task \<open>t\<close> adds to \<open>sent\<close>.\<close>

definition entry :: "nat \<times> task \<Rightarrow> request \<Rightarrow> rat \<Rightarrow> bool \<Rightarrow> dispatch" where
  "entry t req now ok = \<lparr> d_task = t, d_request = req, d_time = now, d_ok = ok \<rparr>"



text \<open>\<^verbatim>\<open>data[outer][inner]\<close> of a submission, \<^verbatim>\<open>None\<close> where a level is missing.\<close>

definition nested :: "json \<Rightarrow> string \<Rightarrow> string \<Rightarrow> json" where
  "nested data outer inner =
     (case as_dict data of
        None \<Rightarrow> JNull
      | Some kv \<Rightarrow>
          (case as_dict (dict_get kv outer JNull) of
             None \<Rightarrow> JNull
           | Some d \<Rightarrow> dict_get d inner JNull))"

text \<open>
  The format of the target address in the words of the spec: for Http it begins with
  \<^verbatim>\<open>http://\<close> or \<^verbatim>\<open>https://\<close>; for Socket it is \<^verbatim>\<open>host:port\<close> with the port an
  integer in 0..65535.
\<close>

definition spec_address_ok :: "task \<Rightarrow> bool" where
  "spec_address_ok t =
     (case address_link t of
        JStr s \<Rightarrow>
          if address_type t = JStr ''http'' then
            take 7 s = ''http://'' \<or> take 8 s = ''https://''
          else if address_type t = JStr ''socket'' then
            (case split_on CHR '':'' s of
               [host, port] \<Rightarrow>
                 (case py_int port of None \<Rightarrow> False | Some p \<Rightarrow> 0 \<le> p \<and> p \<le> 65535)
             | _ \<Rightarrow> False)
          else True
      | _ \<Rightarrow> False)"

text \<open>
  The submissions the constructor builds a task from: a dict with a truthy title, kind,
  link and time, the time being a bool, an int that fits a float, or a float.
\<close>

definition fits_float :: "json \<Rightarrow> bool" where
  "fits_float v = (case v of JBool b \<Rightarrow> True | JInt i \<Rightarrow> \<bar>i\<bar> < float_max_int
                   | JFloat r \<Rightarrow> True | _ \<Rightarrow> False)"

definition accepted :: "json \<Rightarrow> bool" where
  "accepted data =
     (case as_dict data of
        None \<Rightarrow> False
      | Some kv \<Rightarrow>
          truthy (dict_get kv ''title'' JNull)
        \<and> truthy (nested data ''address'' ''type'')
        \<and> truthy (nested data ''address'' ''link'')
        \<and> truthy (nested data ''settings'' ''time'')
        \<and> fits_float (nested data ''settings'' ''time''))"




text \<open>Submissions used as concrete inputs.\<close>

definition submission :: "string \<Rightarrow> string \<Rightarrow> json \<Rightarrow> json" where
  "submission kind link delay =
     JObj [(''title'', JStr ''job''),
           (''address'', JObj [(''type'', JStr kind), (''link'', JStr link)]),
           (''settings'', JObj [(''time'', delay)])]"

definition http_job :: json where
  "http_job = submission ''http'' ''http://example.test/x'' (JInt 1)"

definition socket_job :: json where
  "socket_job = submission ''socket'' ''127.0.0.1:9'' (JInt 1)"

definition udp_job :: json where
  "udp_job = submission ''udp'' ''127.0.0.1:9'' (JInt 1)"

definition bare_link_job :: json where
  "bare_link_job = submission ''http'' ''example.test/x'' (JInt 1)"

definition untitled_job :: json where
  "untitled_job =
     JObj [(''address'', JObj [(''type'', JStr ''http''),
                               (''link'', JStr ''http://example.test/x'')]),
           (''settings'', JObj [(''time'', JInt 1)])]"

text \<open>Runs of the process used as concrete inputs.\<close>

definition queued :: broker where
  "queued = run [Submit socket_job 0] boot"

definition two_queued :: broker where
  "two_queued = run [Submit udp_job 0, Submit socket_job 0] boot"

definition refused_entry :: dispatch where
  "refused_entry = last (sent (tick 5 False 0 queued))"

definition mixed_run :: "event list" where
  "mixed_run = [Submit http_job 0, Submit socket_job 0,
                Tick 5 True 0, Tick 5 True 0, Tick 5 False 0]"

definition refused_run :: "event list" where
  "refused_run = [Submit socket_job 0, Submit http_job 0,
                  Tick 5 False 0, Tick 5 True 0, Tick 5 True 0, Tick 5 True 0]"

definition udp_run :: "event list" where
  "udp_run = [Submit udp_job 0, Tick 5 True 0, Tick 5 True 0, Tick 5 True 0, Tick 5 True 0]"

section \<open>The list, the senders and the bookkeeping\<close>


lemma list_remove_None: "list_remove i xs = None \<longleftrightarrow> i \<notin> fst ` set xs"
  by (induction xs) (auto split: option.splits)


lemma list_remove_Some_length:
  "list_remove i xs = Some ys \<Longrightarrow> length xs = Suc (length ys)"
  by (induction xs arbitrary: ys) (auto split: option.splits if_splits)



lemma list_remove_once:
  "length (filter (\<lambda>x. fst x = i) xs) = 1 \<Longrightarrow>
     \<exists>ys. list_remove i xs = Some ys \<and> length xs = Suc (length ys) \<and> i \<notin> fst ` set ys"
proof (induction xs)
  case Nil
  then show ?case by simp
next
  case (Cons x xs)
  show ?case
  proof (cases "fst x = i")
    case True
    with Cons.prems have "filter (\<lambda>x. fst x = i) xs = []" by simp
    then have "i \<notin> fst ` set xs" by (auto simp: filter_empty_conv)
    with True show ?thesis by simp
  next
    case False
    with Cons.prems have "length (filter (\<lambda>x. fst x = i) xs) = 1" by simp
    from Cons.IH [OF this] False show ?thesis by auto
  qed
qed

lemma finish_send_cases:
  "finish_send t req now ok w = (e, w') \<Longrightarrow>
     (\<not> ok \<and> e = Some NetworkError \<and> w' = w\<lparr> sent := sent w @ [entry t req now False] \<rparr>)
   \<or> (ok \<and> list_remove (fst t) (tasks w) = None \<and> e = Some ValueError
        \<and> w' = w\<lparr> sent := sent w @ [entry t req now True] \<rparr>)
   \<or> (ok \<and> e = None \<and> (\<exists>ts. list_remove (fst t) (tasks w) = Some ts
        \<and> w' = w\<lparr> sent := sent w @ [entry t req now True], tasks := ts \<rparr>))"
  by (auto simp: finish_send_def entry_def remove_task_def Let_def split: option.splits if_splits)

lemma send_socket_cases:
  "send_socket now ok t w = (e, w') \<Longrightarrow>
     (e \<noteq> None \<and> w' = w) \<or> (\<exists>req. finish_send t req now ok w = (e, w'))"
  by (auto simp: send_socket_def split: json.splits list.splits option.splits if_splits)

lemma send_http_cases:
  "send_http now ok rnd t w = (e, w') \<Longrightarrow>
     (e \<noteq> None \<and> w' = w) \<or> (\<exists>req. finish_send t req now ok w = (e, w'))"
  by (auto simp: send_http_def Let_def split: option.splits if_splits)










lemma tick_skip:
  assumes "crashed w = None" "cursor w < length (tasks w)"
    and "\<not> (settings_time (snd (tasks w ! cursor w)) \<le> now
            \<and> (address_type (snd (tasks w ! cursor w)) = JStr ''http''
               \<or> address_type (snd (tasks w ! cursor w)) = JStr ''socket''))"
  shows "tick now ok rnd w = w\<lparr> cursor := Suc (cursor w) \<rparr>"
  using assms by (auto simp: tick_def Let_def)

lemma tick_send:
  assumes "crashed w = None" "cursor w < length (tasks w)"
    and "settings_time (snd (tasks w ! cursor w)) \<le> now"
    and "address_type (snd (tasks w ! cursor w)) = JStr ''http''
         \<or> address_type (snd (tasks w ! cursor w)) = JStr ''socket''"
  obtains e w2 where
    "(e \<noteq> None \<and> w2 = w\<lparr> cursor := Suc (cursor w) \<rparr>)
     \<or> (\<exists>req. finish_send (tasks w ! cursor w) req now ok (w\<lparr> cursor := Suc (cursor w) \<rparr>)
               = (e, w2))"
    "tick now ok rnd w = w2\<lparr> crashed := e \<rparr>"
proof (cases "address_type (snd (tasks w ! cursor w)) = JStr ''http''")
  case True
  obtain e w2 where
    r: "send_http now ok rnd (tasks w ! cursor w) (w\<lparr> cursor := Suc (cursor w) \<rparr>) = (e, w2)"
    by force
  with True assms have "tick now ok rnd w = w2\<lparr> crashed := e \<rparr>"
    by (simp add: tick_def Let_def)
  with send_http_cases [OF r] show ?thesis by (rule that)
next
  case False
  obtain e w2 where
    r: "send_socket now ok (tasks w ! cursor w) (w\<lparr> cursor := Suc (cursor w) \<rparr>) = (e, w2)"
    by force
  with False assms have "tick now ok rnd w = w2\<lparr> crashed := e \<rparr>"
    by (auto simp: tick_def Let_def)
  with send_socket_cases [OF r] show ?thesis by (rule that)
qed

lemma tick_attempt:
  assumes "crashed w = None" "cursor w < length (tasks w)"
    and "settings_time (snd (tasks w ! cursor w)) \<le> now"
    and "address_type (snd (tasks w ! cursor w)) = JStr ''http''
         \<or> address_type (snd (tasks w ! cursor w)) = JStr ''socket''"
  shows "(sent (tick now ok rnd w) = sent w \<and> tasks (tick now ok rnd w) = tasks w
          \<and> crashed (tick now ok rnd w) \<noteq> None)
       \<or> ((\<exists>req. sent (tick now ok rnd w) = sent w @ [entry (tasks w ! cursor w) req now ok])
          \<and> (if ok then crashed (tick now ok rnd w) = None
                       \<and> list_remove (fst (tasks w ! cursor w)) (tasks w)
                          = Some (tasks (tick now ok rnd w))
              else crashed (tick now ok rnd w) = Some NetworkError
                   \<and> tasks (tick now ok rnd w) = tasks w))"
proof -
  from assms(2) have "tasks w ! cursor w \<in> set (tasks w)" by simp
  then have present: "list_remove (fst (tasks w ! cursor w)) (tasks w) \<noteq> None"
    by (simp add: list_remove_None)
  from assms obtain e w2 where
    r: "(e \<noteq> None \<and> w2 = w\<lparr> cursor := Suc (cursor w) \<rparr>)
        \<or> (\<exists>req. finish_send (tasks w ! cursor w) req now ok (w\<lparr> cursor := Suc (cursor w) \<rparr>)
                  = (e, w2))"
    and t: "tick now ok rnd w = w2\<lparr> crashed := e \<rparr>"
    by (rule tick_send)
  from r show ?thesis
  proof
    assume "e \<noteq> None \<and> w2 = w\<lparr> cursor := Suc (cursor w) \<rparr>"
    with t show ?thesis by simp
  next
    assume "\<exists>req. finish_send (tasks w ! cursor w) req now ok (w\<lparr> cursor := Suc (cursor w) \<rparr>)
                  = (e, w2)"
    then obtain req where
      "finish_send (tasks w ! cursor w) req now ok (w\<lparr> cursor := Suc (cursor w) \<rparr>) = (e, w2)"
      by blast
    from finish_send_cases [OF this] present t show ?thesis
      by auto
  qed
qed

lemma tick_effect:
  "(sent (tick now ok rnd w) = sent w \<and> tasks (tick now ok rnd w) = tasks w
      \<and> (crashed w \<noteq> None \<longrightarrow> tick now ok rnd w = w))
   \<or> (crashed w = None \<and> cursor w < length (tasks w)
      \<and> settings_time (snd (tasks w ! cursor w)) \<le> now
      \<and> (address_type (snd (tasks w ! cursor w)) = JStr ''http''
         \<or> address_type (snd (tasks w ! cursor w)) = JStr ''socket'')
      \<and> (\<exists>req. sent (tick now ok rnd w) = sent w @ [entry (tasks w ! cursor w) req now ok])
      \<and> (if ok then crashed (tick now ok rnd w) = None
                   \<and> list_remove (fst (tasks w ! cursor w)) (tasks w)
                      = Some (tasks (tick now ok rnd w))
          else crashed (tick now ok rnd w) = Some NetworkError
               \<and> tasks (tick now ok rnd w) = tasks w))"
proof (cases "crashed w = None \<and> cursor w < length (tasks w)")
  case False
  then show ?thesis by (auto simp: tick_def)
next
  case True
  show ?thesis
  proof (cases "settings_time (snd (tasks w ! cursor w)) \<le> now
            \<and> (address_type (snd (tasks w ! cursor w)) = JStr ''http''
               \<or> address_type (snd (tasks w ! cursor w)) = JStr ''socket'')")
    case False
    with True tick_skip [of w now ok rnd] show ?thesis by simp
  next
    case visit: True
    with True have
      "(sent (tick now ok rnd w) = sent w \<and> tasks (tick now ok rnd w) = tasks w
          \<and> crashed (tick now ok rnd w) \<noteq> None)
       \<or> ((\<exists>req. sent (tick now ok rnd w) = sent w @ [entry (tasks w ! cursor w) req now ok])
          \<and> (if ok then crashed (tick now ok rnd w) = None
                       \<and> list_remove (fst (tasks w ! cursor w)) (tasks w)
                          = Some (tasks (tick now ok rnd w))
              else crashed (tick now ok rnd w) = Some NetworkError
                   \<and> tasks (tick now ok rnd w) = tasks w))"
      by (intro tick_attempt) simp_all
    then show ?thesis
    proof
      assume "sent (tick now ok rnd w) = sent w \<and> tasks (tick now ok rnd w) = tasks w
          \<and> crashed (tick now ok rnd w) \<noteq> None"
      with True show ?thesis by simp
    next
      assume "(\<exists>req. sent (tick now ok rnd w) = sent w @ [entry (tasks w ! cursor w) req now ok])
          \<and> (if ok then crashed (tick now ok rnd w) = None
                       \<and> list_remove (fst (tasks w ! cursor w)) (tasks w)
                          = Some (tasks (tick now ok rnd w))
              else crashed (tick now ok rnd w) = Some NetworkError
                   \<and> tasks (tick now ok rnd w) = tasks w)"
      with True visit show ?thesis by (cases ok) simp_all
    qed
  qed
qed

lemma add_task_effect:
  "sent (snd (add_task self data now w)) = sent w
   \<and> crashed (snd (add_task self data now w)) = crashed w
   \<and> cursor (snd (add_task self data now w)) = cursor w
   \<and> cls_attrs (snd (add_task self data now w)) = cls_attrs w
   \<and> set (tasks w) \<subseteq> set (tasks (snd (add_task self data now w)))"
  by (auto simp: add_task_def append_task_def split: sum.splits)

lemma ended_step:
  assumes "crashed w = Some e"
  shows "crashed (step w ev) = Some e \<and> sent (step w ev) = sent w
         \<and> set (tasks w) \<subseteq> set (tasks (step w ev))"
proof (cases ev)
  case (Submit data now)
  with assms add_task_effect [of task_manager data now w] show ?thesis by simp
next
  case (Tick now ok rnd)
  with assms show ?thesis by (simp add: tick_def)
qed

lemma ended_run:
  "crashed w = Some e \<Longrightarrow>
     crashed (run evs w) = Some e \<and> sent (run evs w) = sent w
     \<and> set (tasks w) \<subseteq> set (tasks (run evs w))"
proof (induction evs arbitrary: w)
  case Nil
  then show ?case by (simp add: run_def)
next
  case (Cons ev evs)
  from ended_step [OF Cons.prems, of ev] have
    st: "crashed (step w ev) = Some e" "sent (step w ev) = sent w"
        "set (tasks w) \<subseteq> set (tasks (step w ev))" by auto
  from Cons.IH [OF st(1)] st(2,3) show ?case
    by (auto simp: run_def)
qed











text \<open>The equations that evaluate the model on a concrete input.\<close>

lemmas submissions = submission_def http_job_def socket_job_def udp_job_def bare_link_job_def
  untitled_job_def

lemmas construction = Task_init_def dict_get_def float_max_int_def Let_def

lemmas process = run_def boot_def class_loaded_def TaskManager_new_def hasattr_cls_def
  class_body_names_def add_task_def append_task_def task_manager_def tick_def
  send_socket_def send_http_def finish_send_def remove_task_def
  py_int_def unsigned_int_def is_digit_def is_space_def

lemmas runs = queued_def two_queued_def refused_entry_def mixed_run_def refused_run_def
  udp_run_def

section \<open>Construction of a task\<close>

lemma add_time_number:
  "add_time v now = Inr d \<Longrightarrow> \<exists>x. number_of v = Some x \<and> d = x + now"
  by (cases v) (auto split: if_splits)

lemma add_time_fits: "(\<exists>d. add_time v now = Inr d) \<longleftrightarrow> fits_float v"
  by (cases v) (auto simp: fits_float_def)

lemma accepted_iff: "accepted data \<longleftrightarrow> (\<exists>t. Task_init data now = Inr t)"
proof -
  have *: "(\<exists>t. (case add_time v now of Inl e \<Rightarrow> Inl e | Inr d \<Rightarrow> Inr (f d)) = Inr t)
           \<longleftrightarrow> fits_float v" for v and f :: "rat \<Rightarrow> task"
    using add_time_fits [of v now] by (auto split: sum.splits)
  show ?thesis
    by (auto simp: accepted_def Task_init_def nested_def Let_def * split: option.splits)
qed

lemma deadline_of_built:
  assumes "Task_init data now = Inr t"
  shows "\<exists>delay. number_of (nested data ''settings'' ''time'') = Some delay
           \<and> settings_time t = now + delay"
proof -
  from assms obtain kv where kv: "as_dict data = Some kv"
    by (auto simp: Task_init_def split: option.splits)
  from assms kv obtain a s where
    a: "as_dict (dict_get kv ''address'' JNull) = Some a" and
    s: "as_dict (dict_get kv ''settings'' JNull) = Some s"
    by (auto simp: Task_init_def Let_def split: option.splits)
  from assms kv a s obtain d where
    d: "add_time (dict_get s ''time'' JNull) now = Inr d" and td: "settings_time t = d"
    by (auto simp: Task_init_def Let_def split: if_splits sum.splits)
  from add_time_number [OF d] obtain x where
    "number_of (dict_get s ''time'' JNull) = Some x" "d = x + now"
    by blast
  with kv s td show ?thesis
    by (simp add: nested_def add.commute)
qed

text \<open>
  C4 (the code at the failing input). The submission \<open>ping\<close> has \<^verbatim>\<open>settings.time = 0\<close>:
  the key is present, and the constructor raises the error of a missing key, at every
  clock value. No task is built, so nothing can fire.
\<close>

theorem ping_rejected:
  "Task_init ping now = Inl (ValidateError ''Missing key time in settings'')"
  by (simp add: Task_init_def ping_def dict_get_def)

text \<open>
  C9 (the code at the failing input). The submission \<open>ping\<close> of the spec's scenario is
  valid and asks for a delay of 0, so the task to return has the clock value of the
  submission as its deadline. The constructor returns no task for it, at any clock
  value: it raises instead.
\<close>

theorem zero_delay_builds_no_task: "Task_init ping now \<noteq> Inr t"
  by (simp add: Task_init_def ping_def dict_get_def)

text \<open>
  Where the constructor does accept a submission (\<open>accepted\<close>, which holds exactly when
  it returns a task), it returns a task whose deadline is the clock value of the
  submission plus the number given as \<^verbatim>\<open>settings.time\<close>.
\<close>

theorem deadline_is_now_plus_delay:
  assumes "accepted data"
  shows "\<exists>t delay. Task_init data now = Inr t
           \<and> number_of (nested data ''settings'' ''time'') = Some delay
           \<and> settings_time t = now + delay"
proof -
  from assms obtain t where t: "Task_init data now = Inr t"
    unfolding accepted_iff [of data now] by blast
  from deadline_of_built [OF t] t show ?thesis by blast
qed

theorem deadline_is_now_plus_delay_witness:
  "accepted http_job
   \<and> Task_init http_job 10 = Inr \<lparr> title = JStr ''job'', address_type = JStr ''http'',
       address_link = JStr ''http://example.test/x'', settings_time = 11,
       settings_data = JObj [] \<rparr>
   \<and> number_of (nested http_job ''settings'' ''time'') = Some 1"
proof -
  have h: "accepted http_job"
    by (simp add: accepted_def fits_float_def nested_def submissions construction)
  from deadline_is_now_plus_delay [OF h, of 10] h show ?thesis
    by (simp add: nested_def submissions construction)
qed




text \<open>
  C7 (amended). Every task the constructor admits has a truthy kind and a truthy
  address, both taken from the submission as they are. Nothing more is checked when
  the task is admitted.
\<close>

theorem admitted_address_is_truthy:
  assumes "Task_init data now = Inr t"
  shows "truthy (address_type t) \<and> truthy (address_link t)
       \<and> address_type t = nested data ''address'' ''type''
       \<and> address_link t = nested data ''address'' ''link''"
  using assms
  by (auto simp: Task_init_def nested_def Let_def split: option.splits sum.splits if_splits)

theorem admitted_address_is_truthy_witness:
  "Task_init bare_link_job 0 = Inr \<lparr> title = JStr ''job'', address_type = JStr ''http'',
       address_link = JStr ''example.test/x'', settings_time = 1, settings_data = JObj [] \<rparr>
   \<and> nested bare_link_job ''address'' ''link'' = JStr ''example.test/x''"
proof -
  have h: "Task_init bare_link_job 0 = Inr \<lparr> title = JStr ''job'',
       address_type = JStr ''http'', address_link = JStr ''example.test/x'',
       settings_time = 1, settings_data = JObj [] \<rparr>"
    by (simp add: submissions construction)
  from admitted_address_is_truthy [OF h] h show ?thesis by simp
qed

text \<open>
  C7 as stated fails: an http task whose link has no scheme is admitted into the list,
  and its address is not of the form the spec requires.
\<close>

theorem bare_link_admitted:
  "map (\<lambda>t. spec_address_ok (snd t)) (tasks (run [Submit bare_link_job 0] boot)) = [False]"
  by (simp add: submissions construction process spec_address_ok_def)

section \<open>The manager and its list\<close>

text \<open>
  C6 (amended). For a task that is in the list exactly once, the first
  \<^verbatim>\<open>remove_task\<close> returns (with no value) and takes the task out of the list, and the
  second raises \<^verbatim>\<open>ValueError\<close>.
\<close>

theorem remove_task_twice:
  assumes "length (filter (\<lambda>x. fst x = fst t) (tasks w)) = 1"
  shows "\<exists>w'. remove_task self t w = Inr w'
           \<and> length (tasks w) = Suc (length (tasks w'))
           \<and> fst t \<notin> fst ` set (tasks w')
           \<and> remove_task self t w' = Inl ValueError"
proof -
  from list_remove_once [OF assms] obtain ys where
    ys: "list_remove (fst t) (tasks w) = Some ys" "length (tasks w) = Suc (length ys)"
        "fst t \<notin> fst ` set ys" by blast
  from ys(3) have "list_remove (fst t) ys = None" by (simp add: list_remove_None)
  with ys show ?thesis by (simp add: remove_task_def)
qed

theorem remove_task_twice_witness:
  "length (filter (\<lambda>x. fst x = fst (hd (tasks queued))) (tasks queued)) = 1
   \<and> remove_task task_manager (hd (tasks queued)) queued \<noteq> Inl ValueError"
proof -
  have h: "length (filter (\<lambda>x. fst x = fst (hd (tasks queued))) (tasks queued)) = 1"
    by (simp add: runs submissions construction process)
  from remove_task_twice [OF h, of task_manager] h show ?thesis
    by auto
qed

text \<open>
  C6 as stated fails: on the list holding one task, the second removal of that task is
  an error, not a no-op that returns false.
\<close>

theorem second_removal_raises:
  "remove_task task_manager (hd (tasks queued)) queued = Inr (queued\<lparr> tasks := [] \<rparr>)
   \<and> remove_task task_manager (hd (tasks queued)) (queued\<lparr> tasks := [] \<rparr>) = Inl ValueError"
  by (simp add: runs submissions construction process)

lemma finish_send_class:
  "finish_send t req now ok w = (e, w') \<Longrightarrow> cls_attrs w' = cls_attrs w"
  using finish_send_cases [of t req now ok w e w'] by auto

lemma tick_class: "cls_attrs (tick now ok rnd w) = cls_attrs w"
proof (cases "crashed w = None \<and> cursor w < length (tasks w)")
  case False
  then show ?thesis by (auto simp: tick_def)
next
  case True
  show ?thesis
  proof (cases "settings_time (snd (tasks w ! cursor w)) \<le> now
            \<and> (address_type (snd (tasks w ! cursor w)) = JStr ''http''
               \<or> address_type (snd (tasks w ! cursor w)) = JStr ''socket'')")
    case False
    with True tick_skip [of w now ok rnd] show ?thesis by simp
  next
    case visit: True
    with True obtain e w2 where
      r: "(e \<noteq> None \<and> w2 = w\<lparr> cursor := Suc (cursor w) \<rparr>)
        \<or> (\<exists>req. finish_send (tasks w ! cursor w) req now ok (w\<lparr> cursor := Suc (cursor w) \<rparr>)
                  = (e, w2))"
      and t: "tick now ok rnd w = w2\<lparr> crashed := e \<rparr>"
      using tick_send [of w now ok rnd] by blast
    from r have "cls_attrs w2 = cls_attrs w"
      using finish_send_class by fastforce
    with t show ?thesis by simp
  qed
qed

lemma run_class: "cls_attrs (run evs w) = cls_attrs w"
proof (induction evs arbitrary: w)
  case Nil
  show ?case by (simp add: run_def)
next
  case (Cons ev evs)
  have "cls_attrs (step w ev) = cls_attrs w"
    using add_task_effect [of task_manager _ _ w] by (cases ev) (simp_all add: tick_class)
  with Cons [of "step w ev"] show ?case by (simp add: run_def)
qed

lemma run_no_instance: "\<not> hasattr_cls (run evs boot) ''instance''"
  by (simp add: hasattr_cls_def run_class class_body_names_def boot_def
      TaskManager_new_def class_loaded_def)

text \<open>
  C10. The class never has an attribute \<^verbatim>\<open>instance\<close>: not when it is loaded, not in any
  run of the process (\<open>run_no_instance\<close>), and not after a call of the constructor. So
  two calls of the constructor in a row return two different new objects. A task
  appended through the first is at the end of the list the second one reads, and can
  be removed through the second, which gives back the state before the append.
\<close>

theorem constructor_never_reuses:
  assumes "\<not> hasattr_cls w ''instance''"
    and "TaskManager_new w = (r1, w1)" and "TaskManager_new w1 = (r2, w2)"
  shows "r1 = Inr (next_ref w) \<and> r2 = Inr (Suc (next_ref w))
       \<and> \<not> hasattr_cls w2 ''instance''
       \<and> get_tasks (Suc (next_ref w)) (append_task (next_ref w) t w2) = get_tasks (next_ref w) w2 @ [t]
       \<and> (fst t \<notin> fst ` set (tasks w2) \<longrightarrow>
            remove_task (Suc (next_ref w)) t (append_task (next_ref w) t w2) = Inr w2)"
proof -
  have fresh: "\<not> hasattr_cls v ''instance'' \<Longrightarrow> TaskManager_new v = (r, v') \<Longrightarrow>
      r = Inr (next_ref v) \<and> next_ref v' = Suc (next_ref v) \<and> tasks v' = tasks v
      \<and> \<not> hasattr_cls v' ''instance''" for v r v'
    by (auto simp: TaskManager_new_def hasattr_cls_def Let_def)
  from fresh [OF assms(1,2)] have 1: "r1 = Inr (next_ref w)" "next_ref w1 = Suc (next_ref w)"
    "\<not> hasattr_cls w1 ''instance''" by auto
  from fresh [OF 1(3) assms(3)] 1(2) have 2: "r2 = Inr (Suc (next_ref w))"
    "\<not> hasattr_cls w2 ''instance''" by auto
  have rm: "i \<notin> fst ` set xs \<Longrightarrow> fst x = i \<Longrightarrow> list_remove i (xs @ [x]) = Some xs" for i xs and x :: "nat \<times> task"
    by (induction xs) auto
  from 1 2 rm [of "fst t" "tasks w2" t] show ?thesis
    by (auto simp: get_tasks_def append_task_def remove_task_def)
qed

theorem constructor_never_reuses_witness:
  "\<not> hasattr_cls class_loaded ''instance''
   \<and> fst (TaskManager_new class_loaded) = Inr 0
   \<and> fst (TaskManager_new (snd (TaskManager_new class_loaded))) = Inr 1"
proof -
  have h: "\<not> hasattr_cls class_loaded ''instance''"
    by (simp add: hasattr_cls_def class_body_names_def class_loaded_def)
  from constructor_never_reuses [OF h, of "fst (TaskManager_new class_loaded)"
      "snd (TaskManager_new class_loaded)"
      "fst (TaskManager_new (snd (TaskManager_new class_loaded)))"
      "snd (TaskManager_new (snd (TaskManager_new class_loaded)))"] h
  show ?thesis by (simp add: class_loaded_def)
qed

section \<open>Dispatch\<close>




text \<open>
  C2 (amended). A dispatch made in a turn whose network call fails leaves the list as it
  was, with the task in it; the scheduler ends with that error; and whatever happens
  later, nothing more is sent (so the task is not retried) and the task stays in the
  list.
\<close>

theorem refused_dispatch_keeps_task:
  assumes "d \<in> set (sent (tick now ok rnd w))" and "d \<notin> set (sent w)" and "\<not> d_ok d"
  shows "tasks (tick now ok rnd w) = tasks w
       \<and> d_task d \<in> set (tasks w)
       \<and> crashed (tick now ok rnd w) = Some NetworkError
       \<and> (\<forall>evs. sent (run evs (tick now ok rnd w)) = sent (tick now ok rnd w)
               \<and> d_task d \<in> set (tasks (run evs (tick now ok rnd w))))"
proof -
  let ?w = "tick now ok rnd w"
  from assms(1,2) have changed: "sent ?w \<noteq> sent w" by auto
  with tick_effect [of now ok rnd w] obtain req where
    c: "crashed w = None" "cursor w < length (tasks w)"
       "sent ?w = sent w @ [entry (tasks w ! cursor w) req now ok]"
       "if ok then crashed ?w = None
                   \<and> list_remove (fst (tasks w ! cursor w)) (tasks w) = Some (tasks ?w)
        else crashed ?w = Some NetworkError \<and> tasks ?w = tasks w"
    by auto
  from assms(1,2) c(3) have d: "d = entry (tasks w ! cursor w) req now ok" by auto
  with assms(3) have "\<not> ok" by (simp add: entry_def)
  with c(4) have e: "crashed ?w = Some NetworkError" "tasks ?w = tasks w" by auto
  from d c(2) have dt: "d_task d \<in> set (tasks w)" by (simp add: entry_def)
  have "sent (run evs ?w) = sent ?w \<and> d_task d \<in> set (tasks (run evs ?w))" for evs
    using ended_run [OF e(1), of evs] e(2) dt by auto
  with e dt show ?thesis by simp
qed

theorem refused_dispatch_keeps_task_witness:
  "refused_entry \<in> set (sent (tick 5 False 0 queued))
   \<and> refused_entry \<notin> set (sent queued)
   \<and> \<not> d_ok refused_entry
   \<and> tasks (tick 5 False 0 queued) = tasks queued
   \<and> d_task refused_entry \<in> set (tasks queued)
   \<and> crashed (tick 5 False 0 queued) = Some NetworkError"
proof -
  have h: "refused_entry \<in> set (sent (tick 5 False 0 queued))"
    "refused_entry \<notin> set (sent queued)" "\<not> d_ok refused_entry"
    by (simp_all add: runs submissions construction process)
  from refused_dispatch_keeps_task [OF h] h show ?thesis by simp
qed

text \<open>
  C2 as stated fails in the spec's scenario: a socket task to \<^verbatim>\<open>127.0.0.1:9\<close>, no
  listener. After the turn that visits it the list still holds one task.
\<close>

theorem refused_socket_not_removed:
  "length (tasks (tick 5 False 0 queued)) = 1
   \<and> d_request refused_entry = SocketSend ''127.0.0.1'' 9 (JObj [])"
  by (simp add: runs submissions construction process)







end
